theory Spec2Isabelle
  imports Complex_Main "HOL-Library.Sublist" "HOL-Library.Log_Nat"
begin

section \<open>Strings and numbers of the analyzers\<close>

text \<open>
  The analyzers of goal-keeper are TypeScript functions over strings, arrays and numbers.
  Strings are modelled as HOL strings. Case conversion and the character classes of the
  regular expressions are those of the ASCII range: letters \<open>A-Z\<close> and \<open>a-z\<close>, the word
  characters \<open>[A-Za-z0-9_]\<close> and the white space characters tab, line feed, vertical tab,
  form feed, carriage return and space. Characters outside ASCII are left alone by the
  case functions of the model.

  A JavaScript number is modelled as a rational. Counters, ratios and the comparisons
  with thresholds are computed exactly. In the cognitive-profile blend, where the question
  is whether a value comes out exactly as it went in, the rounding of IEEE doubles is
  written out.
\<close>

type_synonym number = rat

definition upperLetters :: string where
  "upperLetters = ''ABCDEFGHIJKLMNOPQRSTUVWXYZ''"

definition lowerLetters :: string where
  "lowerLetters = ''abcdefghijklmnopqrstuvwxyz''"

definition toLowerChar :: "char \<Rightarrow> char" where
  "toLowerChar c = (case map_of (zip upperLetters lowerLetters) c of Some d \<Rightarrow> d | None \<Rightarrow> c)"

definition toUpperChar :: "char \<Rightarrow> char" where
  "toUpperChar c = (case map_of (zip lowerLetters upperLetters) c of Some d \<Rightarrow> d | None \<Rightarrow> c)"

definition toLowerCase :: "string \<Rightarrow> string" where
  "toLowerCase s = map toLowerChar s"

definition isWordChar :: "char \<Rightarrow> bool" where
  "isWordChar c \<longleftrightarrow> c \<in> set (upperLetters @ lowerLetters @ ''0123456789_'')"

definition isSpace :: "char \<Rightarrow> bool" where
  "isSpace c \<longleftrightarrow> c \<in> set [CHR 0x09, CHR 0x0A, CHR 0x0B, CHR 0x0C, CHR 0x0D, CHR '' '']"

text \<open>\<open>s.includes(kw)\<close>: \<open>kw\<close> occurs in \<open>s\<close> as a contiguous substring.\<close>

fun str_includes :: "string \<Rightarrow> string \<Rightarrow> bool" where
  "str_includes [] kw = (kw = [])"
| "str_includes (c # cs) kw = (prefix kw (c # cs) \<or> str_includes cs kw)"


text \<open>\<open>xs.slice(-n)\<close>: the last \<open>n\<close> elements, all of them when there are fewer.\<close>

definition sliceLast :: "nat \<Rightarrow> 'a list \<Rightarrow> 'a list" where
  "sliceLast n xs = drop (length xs - n) xs"

text \<open>
  \<open>s.split(/\s+/)\<close>: the pieces between maximal runs of white space. White space at the
  start or at the end of \<open>s\<close> gives an empty first or last piece, and the empty string
  gives one empty piece. The first argument accumulates the current piece, reversed.
\<close>

function splitWs :: "string \<Rightarrow> string \<Rightarrow> string list" where
  "splitWs acc [] = [rev acc]"
| "splitWs acc (c # cs) =
     (if isSpace c then rev acc # splitWs [] (dropWhile isSpace cs)
      else splitWs (c # acc) cs)"
  by pat_completeness auto
termination
  by (relation "measure (\<lambda>(acc, s). length s)")
     (auto simp: length_dropWhile_le less_Suc_eq_le)

section \<open>Messages\<close>

datatype role = User | Assistant

record message =
  msg_id :: string
  role :: role
  content :: string
  timestamp :: int

section \<open>Goal keywords and the client-side drift check\<close>

definition stopWords :: "string list" where
  "stopWords =
    [''the'', ''a'', ''an'', ''and'', ''or'', ''but'', ''in'', ''on'', ''at'', ''to'', ''for'',
     ''of'', ''with'', ''by'', ''from'', ''as'', ''is'', ''was'', ''are'', ''were'', ''been'',
     ''be'', ''have'', ''has'', ''had'', ''do'', ''does'', ''did'', ''will'', ''would'', ''could'',
     ''should'', ''may'', ''might'', ''must'', ''shall'', ''can'', ''need'', ''dare'', ''ought'',
     ''used'', ''this'', ''that'', ''these'', ''those'', ''i'', ''you'', ''he'', ''she'', ''it'',
     ''we'', ''they'', ''what'', ''which'', ''who'', ''whom'', ''whose'', ''where'', ''when'',
     ''why'', ''how'', ''all'', ''each'', ''every'', ''both'', ''few'', ''more'', ''most'',
     ''other'', ''some'', ''such'', ''no'', ''not'', ''only'', ''own'', ''same'', ''so'',
     ''than'', ''too'', ''very'', ''just'', ''about'', ''into'', ''through'', ''during'',
     ''before'', ''after'', ''above'', ''below'', ''between'', ''under'', ''again'',
     ''want'', ''help'', ''make'', ''get'', ''understand'', ''learn'', ''know'', ''think'']"

text \<open>The words of the goal after lowercasing and removing every character outside \<open>[\w\s]\<close>.\<close>

definition goalWords :: "string \<Rightarrow> string list" where
  "goalWords goal = splitWs [] (filter (\<lambda>c. isWordChar c \<or> isSpace c) (toLowerCase goal))"

definition extractGoalKeywords :: "string \<Rightarrow> string list" where
  "extractGoalKeywords goal =
     filter (\<lambda>word. length word > 2 \<and> word \<notin> set stopWords) (goalWords goal)"





section \<open>The regular expressions of the action patterns\<close>

text \<open>
  The eight action patterns are built from literal text (compared without regard to case,
  flag \<open>i\<close>), alternatives, an optional part, \<open>\s*\<close>, the lazy capture group \<open>(.+?)\<close>
  and the end \<open>(?:\.|$)\<close>. \<open>rmatch r (cap, s)\<close> lists every way \<open>r\<close> matches at the start
  of \<open>s\<close>, in the order in which a backtracking matcher tries them: the group captured so
  far and the rest of the input after the match. The first element is the match that
  \<open>exec\<close> reports.
\<close>

datatype regex =
    Lit string
  | Alt "regex list"
  | Seq "regex list"
  | Opt regex
  | SpaceStar
  | CaptureLazy
  | DotOrEnd

definition isLineTerminator :: "char \<Rightarrow> bool" where
  "isLineTerminator c \<longleftrightarrow> c = CHR 0x0A \<or> c = CHR 0x0D"

text \<open>Literal text at the start of the input, ignoring case: the rest of the input after it.\<close>

fun litMatch :: "string \<Rightarrow> string \<Rightarrow> string option" where
  "litMatch [] s = Some s"
| "litMatch (a # l) [] = None"
| "litMatch (a # l) (c # s) = (if toLowerChar a = toLowerChar c then litMatch l s else None)"

fun rmatch :: "regex \<Rightarrow> string option \<times> string \<Rightarrow> (string option \<times> string) list" where
  "rmatch (Lit l) (cap, s) = (case litMatch l s of None \<Rightarrow> [] | Some rest \<Rightarrow> [(cap, rest)])"
| "rmatch (Alt rs) st = concat (map (\<lambda>r. rmatch r st) rs)"
| "rmatch (Seq []) st = [st]"
| "rmatch (Seq (r # rs)) st = concat (map (rmatch (Seq rs)) (rmatch r st))"
| "rmatch (Opt r) st = rmatch r st @ [st]"
| "rmatch SpaceStar (cap, s) =
     map (\<lambda>n. (cap, drop n s)) (rev [0..<Suc (length (takeWhile isSpace s))])"
| "rmatch CaptureLazy (cap, s) =
     map (\<lambda>n. (Some (take n s), drop n s))
       [1..<Suc (length (takeWhile (\<lambda>c. \<not> isLineTerminator c) s))]"
| "rmatch DotOrEnd (cap, s) =
     (case s of [] \<Rightarrow> [(cap, [])] | c # cs \<Rightarrow> if c = CHR ''.'' then [(cap, cs)] else [])"

definition firstMatch :: "regex \<Rightarrow> string \<Rightarrow> (string option \<times> string) option" where
  "firstMatch r s = (case rmatch r (None, s) of [] \<Rightarrow> None | m # _ \<Rightarrow> Some m)"

text \<open>
  The loop \<open>while ((match = pattern.exec(content)) !== null)\<close> of a global pattern: the
  captured groups of the successive matches. \<open>execAll r s\<close> searches \<open>s\<close> from its start;
  \<open>execNext\<close> continues after the attempt at the current position: after a match the
  search goes on where the match ended, after a failure one character further, and the
  loop ends when the input is used up. A match that consumes nothing would leave
  \<open>lastIndex\<close> where it is and the loop of the source would not end; the action patterns
  all consume text (lemma \<open>ACTION_PATTERNS_consume\<close>), so that branch is never taken.
\<close>

function execAll :: "regex \<Rightarrow> string \<Rightarrow> string option list"
  and execNext :: "regex \<Rightarrow> string \<Rightarrow> (string option \<times> string) option \<Rightarrow> string option list"
where
  "execAll r s = execNext r s (firstMatch r s)"
| "execNext r s (Some (cap, rest)) =
     (if length rest < length s then cap # execAll r rest else [cap])"
| "execNext r [] None = []"
| "execNext r (c # t) None = execAll r t"
  by pat_completeness auto
termination
  by (relation "measure (\<lambda>x. case x of Inl (r, s) \<Rightarrow> 2 * length s + 1
                                      | Inr (r, s, m) \<Rightarrow> 2 * length s)") auto

text \<open>A pattern every match of which consumes at least one character.\<close>

fun consumes :: "regex \<Rightarrow> bool" where
  "consumes (Lit l) = (l \<noteq> [])"
| "consumes (Alt rs) = list_all consumes rs"
| "consumes (Seq rs) = list_ex consumes rs"
| "consumes (Opt r) = False"
| "consumes SpaceStar = False"
| "consumes CaptureLazy = True"
| "consumes DotOrEnd = False"

definition captureToEnd :: "regex list" where
  "captureToEnd = [CaptureLazy, DotOrEnd]"

datatype priority = High | Medium | Low

definition ACTION_PATTERNS :: "(regex \<times> priority) list" where
  "ACTION_PATTERNS =
    [(Seq ([Alt [Lit ''I'', Lit ''we''], Lit '' '',
            Alt [Lit ''need'', Lit ''have'', Lit ''want'', Lit ''should'', Lit ''must'', Lit ''will''],
            Lit '' to ''] @ captureToEnd), High),
     (Seq ([Alt [Lit ''TODO'', Lit ''TASK'', Lit ''ACTION''], Opt (Lit '':''), SpaceStar]
            @ captureToEnd), High),
     (Seq ([Alt [Lit ''remember'', Lit ''don't forget''], Lit '' to '']
            @ captureToEnd), Medium),
     (Seq ([Alt [Lit ''let's'', Lit ''let us''], Lit '' '']
            @ captureToEnd), Medium),
     (Seq ([Alt [Lit ''make sure'', Lit ''ensure''], Lit '' '', Opt (Lit ''to '')]
            @ captureToEnd), Medium),
     (Seq ([Alt [Lit ''next step'', Lit ''next,''], Lit '' ''] @ captureToEnd), Medium),
     (Seq ([Alt [Lit ''consider'', Lit ''think about''], Lit '' ''] @ captureToEnd), Low),
     (Seq ([Alt [Lit ''might want to'', Lit ''could''], Lit '' ''] @ captureToEnd), Low)]"

section \<open>Action items and highlights (client-side analysis)\<close>

record action_item =
  item_id :: string
  itemText :: string
  completed :: bool
  dismissed :: bool
  messageId :: string
  priority :: priority

text \<open>\<open>s.trim()\<close>.\<close>

definition trim :: "string \<Rightarrow> string" where
  "trim s = rev (dropWhile isSpace (rev (dropWhile isSpace s)))"

text \<open>\<open>text.charAt(0).toUpperCase() + text.slice(1)\<close>.\<close>

definition capitalize :: "string \<Rightarrow> string" where
  "capitalize s = (case s of [] \<Rightarrow> [] | c # cs \<Rightarrow> toUpperChar c # cs)"

text \<open>
  The texts and priorities that \<open>extractActionItems\<close> pushes, in order: pattern by
  pattern, match by match.
\<close>

definition candidates :: "string \<Rightarrow> (string \<times> priority) list" where
  "candidates c =
     concat (map (\<lambda>(pattern, p).
       concat (map (\<lambda>m. case m of
           None \<Rightarrow> []
         | Some g \<Rightarrow>
             (let t = trim g
              in if t \<noteq> [] \<and> length t > 5 \<and> length t < 200 then [(capitalize t, p)] else []))
         (execAll pattern c)))
       ACTION_PATTERNS)"

text \<open>
  \<open>generateId()\<close> draws on the clock and on a random number; the model takes the
  identifiers as a parameter, \<open>newId k\<close> for the \<open>k\<close>-th identifier a call generates.
\<close>

definition extractActionItems :: "(nat \<Rightarrow> string) \<Rightarrow> message \<Rightarrow> action_item list" where
  "extractActionItems newId message =
     (if role message \<noteq> Assistant then []
      else map (\<lambda>(k, (t, p)).
             \<lparr>item_id = newId k, itemText = t, completed = False, dismissed = False,
              messageId = msg_id message, priority = p\<rparr>)
           (enumerate 0 (candidates (content message))))"

definition HIGHLIGHT_KEYWORDS :: "string list" where
  "HIGHLIGHT_KEYWORDS =
    [''breakthrough'', ''realized'', ''aha'', ''insight'', ''key point'', ''important'',
     ''crucial'', ''essential'', ''finally'', ''got it'', ''makes sense'', ''clicking'',
     ''connected'', ''pattern'', ''underlying'', ''root cause'', ''solution'']"

definition checkForHighlight :: "message \<Rightarrow> bool" where
  "checkForHighlight message =
     list_ex (\<lambda>kw. str_includes (toLowerCase (content message)) kw) HIGHLIGHT_KEYWORDS"

text \<open>
  The state of \<open>useClientSideAnalysis\<close>: the two React states and the set of processed
  message ids kept in a ref.
\<close>

record client_analysis =
  actionItems :: "action_item list"
  highlightedMessages :: "string set"
  processedMessages :: "string set"

text \<open>The updater that \<open>analyzeMessage\<close> passes to \<open>setActionItems\<close>.\<close>

definition mergeNewItems :: "action_item list \<Rightarrow> action_item list \<Rightarrow> action_item list" where
  "mergeNewItems prev newItems =
     (let existingTexts = set (map (\<lambda>i. toLowerCase (itemText i)) prev);
          unique = filter (\<lambda>item. toLowerCase (itemText item) \<notin> existingTexts) newItems
      in prev @ unique)"

definition analyzeMessage :: "(nat \<Rightarrow> string) \<Rightarrow> message \<Rightarrow> client_analysis \<Rightarrow> client_analysis" where
  "analyzeMessage newId message s =
     (if msg_id message \<in> processedMessages s then s
      else
        let s1 = s\<lparr>processedMessages := insert (msg_id message) (processedMessages s)\<rparr>;
            newItems = extractActionItems newId message;
            s2 = (if length newItems > 0
                  then s1\<lparr>actionItems := mergeNewItems (actionItems s1) newItems\<rparr> else s1)
        in if checkForHighlight message
           then s2\<lparr>highlightedMessages := insert (msg_id message) (highlightedMessages s2)\<rparr>
           else s2)"

definition emptyAnalysis :: client_analysis where
  "emptyAnalysis = \<lparr>actionItems = [], highlightedMessages = {}, processedMessages = {}\<rparr>"

section \<open>The analyzers that call the completion service\<close>

text \<open>
  \<open>sendMessage\<close> is the external completion service: the promise it returns is
  rejected, or resolved with free text. An analyzer is an \<open>async\<close> function; the model
  splits it at its \<open>await\<close>: the part that runs before the service is invoked, which
  either returns early (\<open>None\<close>) or gives the state in which the call is made, and the
  part that runs when the promise is settled. The text of the prompt is not modelled.
  \<open>JSON.parse\<close> is a parameter of the model: \<open>None\<close> when it throws, otherwise the
  parsed object, read at the fields the analyzer uses.
\<close>

datatype service_result = Rejected | Resolved string

text \<open>
  \<open>response.match(/\{[\s\S]*\}/)\<close>: the text from the first opening brace to the last
  closing brace after it.
\<close>

definition jsonRegion :: "string \<Rightarrow> string option" where
  "jsonRegion response =
     (case dropWhile (\<lambda>c. c \<noteq> CHR ''{'') response of
        [] \<Rightarrow> None
      | b # s \<Rightarrow>
          if CHR ''}'' \<in> set s
          then Some (b # rev (dropWhile (\<lambda>c. c \<noteq> CHR ''}'') (rev s)))
          else None)"

text \<open>\<open>parseInsightResponse\<close>, \<open>parseResponse\<close>: the same code in both hooks.\<close>

definition parseResponse :: "(string \<Rightarrow> 'a option) \<Rightarrow> string \<Rightarrow> 'a option" where
  "parseResponse JSON_parse response =
     (case jsonRegion response of None \<Rightarrow> None | Some j \<Rightarrow> JSON_parse j)"

definition userMessageCount :: "message list \<Rightarrow> nat" where
  "userMessageCount messages = length (filter (\<lambda>m. role m = User) messages)"

record insight =
  insight_id :: string
  insight_type :: string
  title :: string
  description :: string
  confidence :: number
  crystallization :: number
  relatedMessageIds :: "string list"
  suggestedActions :: "string list"
  insight_timestamp :: int

subsection \<open>Insight detection (useInsightDetection)\<close>

record parsed_insight =
  hasInsight :: bool
  parsed_type :: string
  parsed_title :: string
  parsed_description :: string
  parsed_confidence :: number
  parsed_crystallization :: number
  parsed_suggestedActions :: "string list"
  relatedQuotes :: "string list"

text \<open>
  The state of the hook: the React states and the ref \<open>lastAnalyzedCountRef\<close>. The related
  context, which is computed and stored only after an insight has been accepted, is left
  out.
\<close>

record insight_state =
  currentInsight :: "insight option"
  insightsHistory :: "insight list"
  isAnalyzing :: bool
  lastAnalyzedCount :: nat

definition findRelatedMessageIds :: "message list \<Rightarrow> string list \<Rightarrow> string list" where
  "findRelatedMessageIds messages quotes =
     concat (map (\<lambda>quote.
       case find (\<lambda>m. str_includes (toLowerCase (content m)) (take 50 (toLowerCase quote))) messages of
         None \<Rightarrow> []
       | Some found \<Rightarrow> [msg_id found]) quotes)"

text \<open>Up to the \<open>await\<close>: the guards, then the counter and the in-flight flag are set.\<close>

definition analyzeForInsights_start ::
  "string \<Rightarrow> string \<Rightarrow> message list \<Rightarrow> insight_state \<Rightarrow> insight_state option" where
  "analyzeForInsights_start apiKey goal messages s =
     (if apiKey = [] \<or> goal = [] \<or> length messages < 3 then None
      else if userMessageCount messages \<le> lastAnalyzedCount s then None
      else if int (userMessageCount messages) - int (lastAnalyzedCount s) < 2 then None
      else Some (s\<lparr>lastAnalyzedCount := userMessageCount messages, isAnalyzing := True\<rparr>))"

text \<open>After the \<open>await\<close>: \<open>try\<close> body, \<open>catch\<close> (which only logs) and \<open>finally\<close>.\<close>

definition analyzeForInsights_finish ::
  "(string \<Rightarrow> parsed_insight option) \<Rightarrow> string \<Rightarrow> int \<Rightarrow> message list \<Rightarrow> service_result \<Rightarrow>
     insight_state \<Rightarrow> insight_state" where
  "analyzeForInsights_finish JSON_parse newId now messages result s =
     (let s' =
        (case result of
           Rejected \<Rightarrow> s
         | Resolved response \<Rightarrow>
             (case parseResponse JSON_parse response of
                None \<Rightarrow> s
              | Some parsed \<Rightarrow>
                  if hasInsight parsed \<and> parsed_confidence parsed > 6 / 10
                  then
                    let insight = \<lparr>insight_id = newId,
                          insight_type = parsed_type parsed,
                          title = parsed_title parsed,
                          description = parsed_description parsed,
                          confidence = parsed_confidence parsed,
                          crystallization = parsed_crystallization parsed,
                          relatedMessageIds = findRelatedMessageIds messages (relatedQuotes parsed),
                          suggestedActions = parsed_suggestedActions parsed,
                          insight_timestamp = now\<rparr>
                    in s\<lparr>currentInsight := Some insight,
                         insightsHistory := take 50 (insight # insightsHistory s)\<rparr>
                  else s))
      in s'\<lparr>isAnalyzing := False\<rparr>)"

text \<open>One call of \<open>analyzeForInsights\<close>; \<open>result\<close> is what the service answers if it is called.\<close>

definition analyzeForInsights ::
  "(string \<Rightarrow> parsed_insight option) \<Rightarrow> string \<Rightarrow> int \<Rightarrow> string \<Rightarrow> string \<Rightarrow> message list \<Rightarrow>
     service_result \<Rightarrow> insight_state \<Rightarrow> insight_state" where
  "analyzeForInsights JSON_parse newId now apiKey goal messages result s =
     (case analyzeForInsights_start apiKey goal messages s of
        None \<Rightarrow> s
      | Some s1 \<Rightarrow> analyzeForInsights_finish JSON_parse newId now messages result s1)"

subsection \<open>Unified analysis (useUnifiedAnalysis)\<close>

record drift_report =
  detected :: bool
  drift_reason :: "string option"

record parsed_unified_insight =
  found :: bool
  unified_type :: string
  unified_title :: string
  unified_description :: string
  unified_confidence :: number

record parsed_action =
  action_text :: string
  action_priority :: "priority option"

text \<open>The parsed object; a field the response leaves out is \<open>None\<close>.\<close>

record parsed_unified =
  parsed_drift :: "drift_report option"
  parsed_insight :: "parsed_unified_insight option"
  parsed_actions :: "parsed_action list option"

record unified_action =
  ua_id :: string
  ua_text :: string
  ua_priority :: priority
  ua_completed :: bool
  ua_messageId :: "string option"

record unified_result =
  drift :: drift_report
  insight :: "insight option"
  actions :: "unified_action list"

text \<open>
  The state of the hook: \<open>isAnalyzing\<close> and \<open>lastAnalysis\<close> of the React state, and the
  refs \<open>lastAnalyzedCountRef\<close> and \<open>analysisIntervalRef\<close>. The running token estimate,
  which is computed from the text of the prompt, is left out.
\<close>

record unified_state =
  unified_isAnalyzing :: bool
  lastAnalysis :: "unified_result option"
  unified_lastAnalyzedCount :: nat
  analysisInterval :: int

text \<open>\<open>useRef(settings.analysisInterval || 5)\<close>.\<close>

definition initialUnifiedState :: "int \<Rightarrow> unified_state" where
  "initialUnifiedState settingsInterval =
     \<lparr>unified_isAnalyzing = False, lastAnalysis = None, unified_lastAnalyzedCount = 0,
      analysisInterval = (if settingsInterval = 0 then 5 else settingsInterval)\<rparr>"

definition setAnalysisInterval :: "int \<Rightarrow> unified_state \<Rightarrow> unified_state" where
  "setAnalysisInterval interval s = s\<lparr>analysisInterval := interval\<rparr>"

definition analyze_start ::
  "string \<Rightarrow> string \<Rightarrow> message list \<Rightarrow> unified_state \<Rightarrow> unified_state option" where
  "analyze_start apiKey goal messages s =
     (if apiKey = [] \<or> goal = [] \<or> length messages < 2 then None
      else if userMessageCount messages \<le> unified_lastAnalyzedCount s then None
      else if int (userMessageCount messages) - int (unified_lastAnalyzedCount s) < analysisInterval s
        then None
      else Some (s\<lparr>unified_lastAnalyzedCount := userMessageCount messages,
                   unified_isAnalyzing := True\<rparr>))"

text \<open>
  \<open>generateId()\<close> is called once for the insight, if there is one, and once for each
  action: \<open>insightId\<close> and \<open>actionId k\<close>.
\<close>

definition unifiedResult ::
  "string \<Rightarrow> (nat \<Rightarrow> string) \<Rightarrow> int \<Rightarrow> message list \<Rightarrow> parsed_unified \<Rightarrow> unified_result" where
  "unifiedResult insightId actionId now messages parsed =
     \<lparr>drift = (case parsed_drift parsed of
                 None \<Rightarrow> \<lparr>detected = False, drift_reason = None\<rparr>
               | Some d \<Rightarrow> d),
      insight =
        (case parsed_insight parsed of
           None \<Rightarrow> None
         | Some i \<Rightarrow>
             if found i \<and> unified_confidence i > 7 / 10
             then Some \<lparr>insight_id = insightId,
                    insight_type = unified_type i,
                    title = (if unified_title i = [] then ''Insight'' else unified_title i),
                    description = unified_description i,
                    confidence = unified_confidence i,
                    crystallization = unified_confidence i,
                    relatedMessageIds = [],
                    suggestedActions = [],
                    insight_timestamp = now\<rparr>
             else None),
      actions =
        map (\<lambda>(k, a).
              \<lparr>ua_id = actionId k, ua_text = action_text a,
               ua_priority = (case action_priority a of None \<Rightarrow> Medium | Some p \<Rightarrow> p),
               ua_completed = False,
               ua_messageId = (case messages of [] \<Rightarrow> None | _ \<Rightarrow> Some (msg_id (last messages)))\<rparr>)
          (enumerate 0 (case parsed_actions parsed of None \<Rightarrow> [] | Some as \<Rightarrow> as))\<rparr>"

text \<open>
  After the \<open>await\<close>. An unparseable response returns \<open>null\<close> from inside the \<open>try\<close>
  block, which has no \<open>finally\<close>: the in-flight flag stays set.
\<close>

definition analyze_finish ::
  "(string \<Rightarrow> parsed_unified option) \<Rightarrow> string \<Rightarrow> (nat \<Rightarrow> string) \<Rightarrow> int \<Rightarrow> message list \<Rightarrow>
     service_result \<Rightarrow> unified_state \<Rightarrow> unified_result option \<times> unified_state" where
  "analyze_finish JSON_parse insightId actionId now messages result s =
     (case result of
        Rejected \<Rightarrow> (None, s\<lparr>unified_isAnalyzing := False\<rparr>)
      | Resolved response \<Rightarrow>
          (case parseResponse JSON_parse response of
             None \<Rightarrow> (None, s)
           | Some parsed \<Rightarrow>
               let r = unifiedResult insightId actionId now messages parsed
               in (Some r, s\<lparr>unified_isAnalyzing := False, lastAnalysis := Some r\<rparr>)))"

definition analyze ::
  "(string \<Rightarrow> parsed_unified option) \<Rightarrow> string \<Rightarrow> (nat \<Rightarrow> string) \<Rightarrow> int \<Rightarrow> string \<Rightarrow> string \<Rightarrow>
     message list \<Rightarrow> service_result \<Rightarrow> unified_state \<Rightarrow> unified_result option \<times> unified_state" where
  "analyze JSON_parse insightId actionId now apiKey goal messages result s =
     (case analyze_start apiKey goal messages s of
        None \<Rightarrow> (None, s)
      | Some s1 \<Rightarrow> analyze_finish JSON_parse insightId actionId now messages result s1)"

section \<open>Behavioral inference (useBehavioralInference)\<close>

record behavioral_metrics =
  tangentCount :: number
  selfCorrectionCount :: number
  promptedRefocusCount :: number
  questionBeforeActionCount :: number
  quickDecisionCount :: number
  optionsExploredAvg :: number
  insightsAccepted :: number
  insightsDismissed :: number
  insightsActedOn :: number
  clipsTotal :: number
  clipsByCategory :: "string \<rightharpoonup> number"
  actionItemsCreated :: number
  actionItemsCompleted :: number
  avgMessageLength :: number
  followUpRatio :: number
  sessionCount :: number
  avgSessionLength :: number

record inferred_trait =
  trait_id :: string
  trait_name :: string
  trait_description :: string
  trait_confidence :: number
  trait_value :: number
  confirmedByUser :: "bool option"
  lastUpdated :: int

record pending_observation =
  observation_id :: string
  traitId :: string
  observation_message :: string
  question :: string
  observation_priority :: priority
  createdAt :: int
  observation_dismissed :: bool

record behavioral_profile =
  metrics :: behavioral_metrics
  traits :: "inferred_trait list"
  observations :: "pending_observation list"
  lastAnalyzed :: int

definition MIN_SAMPLES_FOR_TRAIT :: number where
  "MIN_SAMPLES_FOR_TRAIT = 5"


text \<open>\<open>existing?.confirmedByUser ?? null\<close> for the previous trait of the given id.\<close>

definition priorConfirmation :: "inferred_trait list \<Rightarrow> string \<Rightarrow> bool option" where
  "priorConfirmation ts i =
     (case find (\<lambda>t. trait_id t = i) ts of None \<Rightarrow> None | Some existing \<Rightarrow> confirmedByUser existing)"

text \<open>
  The four blocks of \<open>analyzePatterns\<close>: each gives the trait it pushes, or nothing when
  the counters are below the minimum. \<open>now\<close> is the value of \<open>new Date()\<close>.
\<close>

definition explorationTrait :: "int \<Rightarrow> behavioral_profile \<Rightarrow> inferred_trait list" where
  "explorationTrait now prev =
     (let m = metrics prev;
          totalDriftEvents = tangentCount m + selfCorrectionCount m
      in if totalDriftEvents \<ge> MIN_SAMPLES_FOR_TRAIT
         then
           let selfCorrectionRatio = selfCorrectionCount m / max 1 totalDriftEvents;
               explorationValue = 1 - selfCorrectionRatio
           in [\<lparr>trait_id = ''explorationTendency'',
                 trait_name = ''Exploration Style'',
                 trait_description = ''How much you explore tangents vs. staying on track'',
                 trait_confidence = min 1 (totalDriftEvents / 20),
                 trait_value = explorationValue,
                 confirmedByUser = priorConfirmation (traits prev) ''explorationTendency'',
                 lastUpdated = now\<rparr>]
         else [])"

definition decisionTrait :: "int \<Rightarrow> behavioral_profile \<Rightarrow> inferred_trait list" where
  "decisionTrait now prev =
     (let m = metrics prev;
          decisionEvents = questionBeforeActionCount m + quickDecisionCount m
      in if decisionEvents \<ge> MIN_SAMPLES_FOR_TRAIT
         then
           let thoroughnessValue = questionBeforeActionCount m / max 1 decisionEvents
           in [\<lparr>trait_id = ''decisionStyle'',
                 trait_name = ''Decision Approach'',
                 trait_description = ''Whether you decide quickly or explore all options first'',
                 trait_confidence = min 1 (decisionEvents / 15),
                 trait_value = thoroughnessValue,
                 confirmedByUser = priorConfirmation (traits prev) ''decisionStyle'',
                 lastUpdated = now\<rparr>]
         else [])"

definition receptivityTrait :: "int \<Rightarrow> behavioral_profile \<Rightarrow> inferred_trait list" where
  "receptivityTrait now prev =
     (let m = metrics prev;
          insightEvents = insightsAccepted m + insightsDismissed m
      in if insightEvents \<ge> MIN_SAMPLES_FOR_TRAIT
         then
           let receptivityValue = insightsAccepted m / max 1 insightEvents
           in [\<lparr>trait_id = ''insightReceptivity'',
                 trait_name = ''Insight Engagement'',
                 trait_description = ''How you respond to AI-generated insights and suggestions'',
                 trait_confidence = min 1 (insightEvents / 10),
                 trait_value = receptivityValue,
                 confirmedByUser = priorConfirmation (traits prev) ''insightReceptivity'',
                 lastUpdated = now\<rparr>]
         else [])"

definition captureTrait :: "int \<Rightarrow> behavioral_profile \<Rightarrow> inferred_trait list" where
  "captureTrait now prev =
     (let m = metrics prev
      in if clipsTotal m \<ge> MIN_SAMPLES_FOR_TRAIT
         then
           let actionClips = (case clipsByCategory m ''actions'' of None \<Rightarrow> 0 | Some n \<Rightarrow> n);
               ideaClips = (case clipsByCategory m ''ideas'' of None \<Rightarrow> 0 | Some n \<Rightarrow> n);
               total = actionClips + ideaClips;
               actionFocus = (if total > 0 then actionClips / total else 1 / 2)
           in [\<lparr>trait_id = ''captureStyle'',
                 trait_name = ''Information Capture'',
                 trait_description = ''Whether you capture mainly tasks or ideas/references'',
                 trait_confidence = min 1 (clipsTotal m / 15),
                 trait_value = 1 - actionFocus,
                 confirmedByUser = priorConfirmation (traits prev) ''captureStyle'',
                 lastUpdated = now\<rparr>]
         else [])"

text \<open>The updater of \<open>analyzePatterns\<close>.\<close>

definition analyzePatterns :: "int \<Rightarrow> behavioral_profile \<Rightarrow> behavioral_profile" where
  "analyzePatterns now prev =
     (let newTraits = explorationTrait now prev @ decisionTrait now prev @
            receptivityTrait now prev @ captureTrait now prev
      in prev\<lparr>traits := (if length newTraits > 0 then newTraits else traits prev),
               lastAnalyzed := now\<rparr>)"







definition DEFAULT_BEHAVIORAL_PROFILE :: "int \<Rightarrow> behavioral_profile" where
  "DEFAULT_BEHAVIORAL_PROFILE now =
     \<lparr>metrics = \<lparr>tangentCount = 0, selfCorrectionCount = 0, promptedRefocusCount = 0,
        questionBeforeActionCount = 0, quickDecisionCount = 0, optionsExploredAvg = 0,
        insightsAccepted = 0, insightsDismissed = 0, insightsActedOn = 0,
        clipsTotal = 0, clipsByCategory = Map.empty,
        actionItemsCreated = 0, actionItemsCompleted = 0,
        avgMessageLength = 0, followUpRatio = 0, sessionCount = 0, avgSessionLength = 0\<rparr>,
      traits = [], observations = [], lastAnalyzed = now\<rparr>"

section \<open>The cognitive profile (useCognitiveProfile)\<close>

subsection \<open>Double arithmetic\<close>

text \<open>
  The blend of the profile multiplies and adds doubles, and whether a value is left exactly
  as it was depends on the rounding. \<open>toDouble x\<close> is \<open>x\<close> rounded to the nearest number
  with a significand of 53 bits, a tie going to the even significand, as IEEE 754 rounds
  the result of \<open>*\<close> and \<open>+\<close> and as a decimal literal such as \<open>0.7\<close> is read. The
  exponent is not bounded: the model is that of the doubles of the normal range, without
  overflow, subnormal numbers, infinities or NaN.
\<close>

text \<open>The exponent \<open>e\<close> with \<open>2^e \<le> |x| < 2^(e+1)\<close>, for \<open>x\<close> other than 0.\<close>

definition binaryExponent :: "rat \<Rightarrow> int" where
  "binaryExponent x =
     (let (p, q) = quotient_of \<bar>x\<bar>;
          d = bitlen p - bitlen q
      in if 2 powi d \<le> \<bar>x\<bar> then d else d - 1)"





subsection \<open>The profile and its update\<close>






















section \<open>Example inputs\<close>

definition offTopic :: "nat \<Rightarrow> message list" where
  "offTopic n = map (\<lambda>k. \<lparr>msg_id = replicate (Suc k) CHR ''m'',
       role = (if even k then User else Assistant),
       content = ''What should we cook for dinner tonight?'', timestamp = int k\<rparr>) [0..<n]"

definition exampleIds :: "nat \<Rightarrow> string" where
  "exampleIds k = ''id-'' @ replicate k CHR ''x''"

definition specExample :: message where
  "specExample = \<lparr>msg_id = ''a1'', role = Assistant,
     content = ''I need to refactor the auth module. Let's also consider adding tests.'',
     timestamp = 0\<rparr>"

definition reminderExample :: message where
  "reminderExample = \<lparr>msg_id = ''a2'', role = Assistant,
     content = ''Remember to update the docs. Also, don't forget to update the docs.'',
     timestamp = 0\<rparr>"

definition exampleParsed :: "number \<Rightarrow> parsed_insight" where
  "exampleParsed c = \<lparr>hasInsight = True, parsed_type = ''breakthrough'',
     parsed_title = ''Caching is the bottleneck'', parsed_description = ''The slow path is the cache'',
     parsed_confidence = c, parsed_crystallization = 1 / 2, parsed_suggestedActions = [],
     relatedQuotes = []\<rparr>"

definition exampleUnified :: "number \<Rightarrow> parsed_unified" where
  "exampleUnified c = \<lparr>parsed_drift = None,
     parsed_insight = Some \<lparr>found = True, unified_type = ''breakthrough'',
       unified_title = ''Caching is the bottleneck'', unified_description = [],
       unified_confidence = c\<rparr>,
     parsed_actions = None\<rparr>"

definition idleInsightState :: insight_state where
  "idleInsightState = \<lparr>currentInsight = None, insightsHistory = [], isAnalyzing = False,
     lastAnalyzedCount = 0\<rparr>"

definition busyProfile :: behavioral_profile where
  "busyProfile = (DEFAULT_BEHAVIORAL_PROFILE 0)\<lparr>metrics :=
     (metrics (DEFAULT_BEHAVIORAL_PROFILE 0))\<lparr>tangentCount := 12, selfCorrectionCount := 1,
        questionBeforeActionCount := 1, quickDecisionCount := 9,
        insightsAccepted := 6, insightsDismissed := 4\<rparr>\<rparr>"



section \<open>Properties of the string functions\<close>



lemma sliceLast_append: "length ys = n \<Longrightarrow> sliceLast n (xs @ ys) = ys"
  by (simp add: sliceLast_def)

lemma sliceLast_short: "length xs \<le> n \<Longrightarrow> sliceLast n xs = xs"
  by (simp add: sliceLast_def)

lemma count_list_filter:
  "count_list (filter P xs) w = (if P w then count_list xs w else 0)"
  by (induction xs) auto

section \<open>The drift check\<close>



section \<open>Goal keywords\<close>

text \<open>
  C2, as the code has it. \<open>extractGoalKeywords\<close> returns an array: it contains no stop
  word and no word of length 2 or less, and it keeps every occurrence of a content word of
  the goal, so a word that the goal repeats is repeated in the result.
\<close>

theorem extractGoalKeywords_content_words:
  "(\<forall>w \<in> set (extractGoalKeywords goal). w \<notin> set stopWords \<and> 2 < length w) \<and>
   (\<forall>w. count_list (extractGoalKeywords goal) w =
      (if 2 < length w \<and> w \<notin> set stopWords then count_list (goalWords goal) w else 0))"
  by (auto simp: extractGoalKeywords_def count_list_filter)

theorem extractGoalKeywords_content_words_witness:
  "extractGoalKeywords ''Build a REST API for todo app'' =
     [''build'', ''rest'', ''api'', ''todo'', ''app''] \<and>
   ''api'' \<notin> set stopWords \<and> 2 < length ''api'' \<and>
   count_list (goalWords ''Build a REST API for todo app'') ''api'' = 1"
proof -
  have kws: "extractGoalKeywords ''Build a REST API for todo app'' =
      [''build'', ''rest'', ''api'', ''todo'', ''app'']"
    by code_simp
  have "''api'' \<in> set (extractGoalKeywords ''Build a REST API for todo app'')"
    by (simp add: kws)
  with extractGoalKeywords_content_words [of "''Build a REST API for todo app''"]
  have "''api'' \<notin> set stopWords \<and> 2 < length ''api''" and
    "count_list (extractGoalKeywords ''Build a REST API for todo app'') ''api'' =
       count_list (goalWords ''Build a REST API for todo app'') ''api''"
    by auto
  with kws show ?thesis by simp
qed

text \<open>The goal "Build the build API" has content keywords, and its result repeats one.\<close>

theorem extractGoalKeywords_keeps_duplicates:
  "extractGoalKeywords ''Build the build API'' = [''build'', ''build'', ''api''] \<and>
   \<not> distinct (extractGoalKeywords ''Build the build API'')"
proof -
  have "extractGoalKeywords ''Build the build API'' = [''build'', ''build'', ''api'']"
    by code_simp
  then show ?thesis by simp
qed

section \<open>Action items\<close>

lemma litMatch_length: "litMatch l s = Some rest \<Longrightarrow> length rest + length l = length s"
  by (induction l s rule: litMatch.induct) (auto split: if_splits)

lemma rmatch_length:
  "(cap', rest) \<in> set (rmatch r st) \<Longrightarrow>
     length rest \<le> length (snd st) \<and> (consumes r \<longrightarrow> length rest < length (snd st))"
proof (induction r st arbitrary: cap' rest rule: rmatch.induct)
  case (1 l cap s)
  then have "litMatch l s = Some rest"
    by (auto split: option.splits)
  from litMatch_length [OF this] show ?case
    by (cases l) auto
next
  case (2 rs st)
  then show ?case
    by (fastforce simp: list_all_iff)
next
  case (3 st)
  then show ?case by auto
next
  case (4 r rs st)
  from "4.prems" obtain cap1 rest1 where
    a: "(cap1, rest1) \<in> set (rmatch r st)" and
    b: "(cap', rest) \<in> set (rmatch (Seq rs) (cap1, rest1))"
    by auto
  from "4.IH"(1) [OF a]
  have ra: "length rest1 \<le> length (snd st)" "consumes r \<longrightarrow> length rest1 < length (snd st)"
    by simp_all
  from "4.IH"(2) [OF a b]
  have rb: "length rest \<le> length rest1" "consumes (Seq rs) \<longrightarrow> length rest < length rest1"
    by simp_all
  from ra rb show ?case by auto
next
  case (5 r st)
  then show ?case by auto
next
  case (6 cap s)
  then show ?case by auto
next
  case (7 cap s)
  then show ?case
    using length_takeWhile_le [of "\<lambda>c. \<not> isLineTerminator c" s] by auto
next
  case (8 cap s)
  then show ?case by (auto split: list.splits if_splits)
qed

lemma firstMatch_consumes:
  assumes "firstMatch r s = Some (cap, rest)" and "consumes r"
  shows "length rest < length s"
proof -
  from assms(1) have "(cap, rest) \<in> set (rmatch r (None, s))"
    by (auto simp: firstMatch_def split: list.splits)
  from rmatch_length [OF this] assms(2) show ?thesis
    by simp
qed

lemma ACTION_PATTERNS_consume: "list_all (\<lambda>(r, p). consumes r) ACTION_PATTERNS"
  by (simp add: ACTION_PATTERNS_def captureToEnd_def)

text \<open>
  So for a pattern that consumes text, and the eight action patterns do, the search is the
  loop of the source: after a match it goes on where the match ended.
\<close>

lemma execAll_consuming:
  assumes "consumes r"
  shows "execAll r s =
     (case firstMatch r s of
        Some (cap, rest) \<Rightarrow> cap # execAll r rest
      | None \<Rightarrow> (case s of [] \<Rightarrow> [] | c # t \<Rightarrow> execAll r t))"
proof (cases "firstMatch r s")
  case None
  then show ?thesis
    by (cases s) simp_all
next
  case (Some m)
  obtain cap rest where m: "m = (cap, rest)"
    by (cases m)
  with Some assms have "length rest < length s"
    by (simp add: firstMatch_consumes)
  with Some m show ?thesis
    by simp
qed

lemma candidates_specExample:
  "candidates (content specExample) =
     [(''Refactor the auth module'', High), (''Also consider adding tests'', Medium),
      (''Adding tests'', Low)]"
  by code_simp

text \<open>
  C5, as the code has it. The assistant message "I need to refactor the auth module.
  Let's also consider adding tests." yields three action items, in the order of the
  patterns: high "Refactor the auth module", medium "Also consider adding tests" and,
  from the pattern \<open>(?:consider|think about) (.+?)(?:\.|$)\<close>, low "Adding tests".
\<close>

theorem extractActionItems_specExample:
  "map (\<lambda>i. (priority i, itemText i)) (extractActionItems newId specExample) =
     [(High, ''Refactor the auth module''), (Medium, ''Also consider adding tests''),
      (Low, ''Adding tests'')]"
proof -
  have "role specExample = Assistant"
    by (simp add: specExample_def)
  then show ?thesis
    by (simp add: extractActionItems_def candidates_specExample)
qed

theorem extractActionItems_specExample_witness:
  "map (\<lambda>i. (item_id i, priority i, itemText i)) (extractActionItems exampleIds specExample) =
     [(''id-'', High, ''Refactor the auth module''),
      (''id-x'', Medium, ''Also consider adding tests''),
      (''id-xx'', Low, ''Adding tests'')]"
proof -
  have "map item_id (extractActionItems exampleIds specExample) = [''id-'', ''id-x'', ''id-xx'']"
    by code_simp
  with extractActionItems_specExample [of exampleIds] show ?thesis
    by (auto simp: map_eq_Cons_conv)
qed

theorem extractActionItems_specExample_not_two:
  "length (extractActionItems exampleIds specExample) = 3 \<and>
   map (\<lambda>i. (priority i, itemText i)) (extractActionItems exampleIds specExample) \<noteq>
     [(High, ''Refactor the auth module''), (Medium, ''Also consider adding tests'')]"
proof -
  have "map (\<lambda>i. (priority i, itemText i)) (extractActionItems exampleIds specExample) =
     [(High, ''Refactor the auth module''), (Medium, ''Also consider adding tests''),
      (Low, ''Adding tests'')]"
    by code_simp
  then show ?thesis
    by (auto dest: arg_cong [where f = length])
qed

lemma analyzeMessage_processed:
  "msg_id message \<in> processedMessages (analyzeMessage newId message s)"
  by (simp add: analyzeMessage_def Let_def)

text \<open>
  C7. \<open>analyzeMessage\<close> is idempotent per message id: on a message whose id is in the
  processed set it changes nothing, and so a second call with a message of the same id,
  whatever its content, leaves the action items and the highlighted messages as the first
  call left them.
\<close>

theorem analyzeMessage_idempotent:
  "(msg_id message \<in> processedMessages s \<longrightarrow> analyzeMessage newId message s = s) \<and>
   (msg_id message' = msg_id message \<longrightarrow>
      analyzeMessage newId' message' (analyzeMessage newId message s) =
        analyzeMessage newId message s)"
proof (intro conjI impI)
  assume "msg_id message \<in> processedMessages s"
  then show "analyzeMessage newId message s = s"
    by (simp add: analyzeMessage_def)
next
  assume "msg_id message' = msg_id message"
  then have "msg_id message' \<in> processedMessages (analyzeMessage newId message s)"
    by (simp add: analyzeMessage_processed)
  then show "analyzeMessage newId' message' (analyzeMessage newId message s) =
      analyzeMessage newId message s"
    by (simp add: analyzeMessage_def [of newId' message'])
qed

theorem analyzeMessage_idempotent_witness:
  "map itemText (actionItems (analyzeMessage exampleIds specExample
      (analyzeMessage exampleIds specExample emptyAnalysis))) =
     [''Refactor the auth module'', ''Also consider adding tests'', ''Adding tests''] \<and>
   highlightedMessages (analyzeMessage exampleIds specExample
      (analyzeMessage exampleIds specExample emptyAnalysis)) = {}"
proof -
  have "map itemText (actionItems (analyzeMessage exampleIds specExample emptyAnalysis)) =
      [''Refactor the auth module'', ''Also consider adding tests'', ''Adding tests'']"
    by code_simp
  moreover have "highlightedMessages (analyzeMessage exampleIds specExample emptyAnalysis) = {}"
    by code_simp
  ultimately show ?thesis
    using analyzeMessage_idempotent [of specExample emptyAnalysis exampleIds specExample exampleIds]
    by simp
qed

text \<open>
  C8 at a failing input. The assistant message "Remember to update the docs. Also, don't
  forget to update the docs." matches the third pattern twice with the same captured text.
  The filter of \<open>analyzeMessage\<close> compares the new items with the texts already in the
  list only, not with each other, so both are inserted.
\<close>

theorem analyzeMessage_duplicate_texts:
  "map itemText (actionItems (analyzeMessage exampleIds reminderExample emptyAnalysis)) =
     [''Update the docs'', ''Update the docs'']"
  by code_simp

text \<open>What the filter does ensure: no inserted item repeats a text of the list it joins.\<close>

lemma mergeNewItems_new_texts:
  "mergeNewItems prev newItems = prev @
     filter (\<lambda>n. toLowerCase (itemText n) \<notin> (\<lambda>i. toLowerCase (itemText i)) ` set prev) newItems"
  by (simp add: mergeNewItems_def Let_def)

lemma mergeNewItems_distinct:
  assumes "distinct (map (\<lambda>i. toLowerCase (itemText i)) prev)"
    and "distinct (map (\<lambda>i. toLowerCase (itemText i)) newItems)"
  shows "distinct (map (\<lambda>i. toLowerCase (itemText i)) (mergeNewItems prev newItems))"
proof -
  let ?f = "\<lambda>i::action_item. toLowerCase (itemText i)"
  have "distinct (map ?f (filter (\<lambda>n. ?f n \<notin> ?f ` set prev) newItems))"
    using assms(2) by (rule distinct_map_filter)
  moreover have "\<And>i n. i \<in> set prev \<Longrightarrow> ?f i = ?f n \<Longrightarrow> ?f n \<notin> ?f ` set prev \<Longrightarrow> False"
    by (metis image_eqI)
  then have "set (map ?f prev) \<inter>
      set (map ?f (filter (\<lambda>n. ?f n \<notin> ?f ` set prev) newItems)) = {}"
    by fastforce
  ultimately show ?thesis
    using assms(1) by (simp add: mergeNewItems_new_texts)
qed

section \<open>Insight acceptance and the throttle of the analyzers\<close>

text \<open>
  C3. In the single-analyzer path a parsed response whose confidence is 0.6 or less, and so
  one whose confidence is exactly 0.6, changes nothing but the in-flight flag: the current
  insight and the history stay as they were. A response that reports an insight with a
  confidence above 0.6 becomes the current insight and the head of the history. In the
  unified path the result carries an insight exactly when the parsed insight is marked as
  found and its confidence is above 0.7; otherwise the result is returned and stored with
  no insight.
\<close>

theorem insight_confidence_thresholds:
  "(parseResponse JSON_parse response = Some parsed \<and> parsed_confidence parsed \<le> 6 / 10 \<longrightarrow>
      analyzeForInsights_finish JSON_parse newId now messages (Resolved response) s =
        s\<lparr>isAnalyzing := False\<rparr>) \<and>
   (parseResponse JSON_parse response = Some parsed \<and> hasInsight parsed \<and>
      6 / 10 < parsed_confidence parsed \<longrightarrow>
      (\<exists>i. currentInsight (analyzeForInsights_finish JSON_parse newId now messages
               (Resolved response) s) = Some i \<and>
           confidence i = parsed_confidence parsed \<and>
           insightsHistory (analyzeForInsights_finish JSON_parse newId now messages
               (Resolved response) s) = take 50 (i # insightsHistory s))) \<and>
   (insight (unifiedResult insightId actionId now messages parsedU) \<noteq> None \<longleftrightarrow>
      (\<exists>i. parsed_insight parsedU = Some i \<and> found i \<and> 7 / 10 < unified_confidence i)) \<and>
   (parseResponse JSON_parseU response = Some parsedU \<and>
      (\<forall>i. parsed_insight parsedU = Some i \<longrightarrow> unified_confidence i \<le> 7 / 10) \<longrightarrow>
      (\<exists>r. analyze_finish JSON_parseU insightId actionId now messages (Resolved response) u =
             (Some r, u\<lparr>unified_isAnalyzing := False, lastAnalysis := Some r\<rparr>) \<and>
           insight r = None))"
  by (auto simp: analyzeForInsights_finish_def analyze_finish_def unifiedResult_def Let_def
      split: option.splits)

theorem insight_confidence_thresholds_witness:
  "analyzeForInsights_finish (\<lambda>j. Some (exampleParsed (6 / 10))) ''i1'' 0 []
      (Resolved ''{}'') (idleInsightState\<lparr>isAnalyzing := True\<rparr>) = idleInsightState \<and>
   (\<exists>i. currentInsight (analyzeForInsights_finish (\<lambda>j. Some (exampleParsed (61 / 100))) ''i1'' 0 []
      (Resolved ''{}'') idleInsightState) = Some i \<and> confidence i = 61 / 100) \<and>
   insight (unifiedResult ''i1'' exampleIds 0 [] (exampleUnified (7 / 10))) = None \<and>
   insight (unifiedResult ''i1'' exampleIds 0 [] (exampleUnified (71 / 100))) \<noteq> None"
proof -
  have p: "\<And>c. parseResponse (\<lambda>j. Some (exampleParsed c)) ''{}'' = Some (exampleParsed c)"
    by (simp add: parseResponse_def jsonRegion_def)
  have c: "\<And>c. parsed_confidence (exampleParsed c) = c" "\<And>c. hasInsight (exampleParsed c)"
    by (simp_all add: exampleParsed_def)
  have u: "\<And>c. parsed_insight (exampleUnified c) = Some \<lparr>found = True,
       unified_type = ''breakthrough'', unified_title = ''Caching is the bottleneck'',
       unified_description = [], unified_confidence = c\<rparr>"
    by (simp add: exampleUnified_def)
  note t = insight_confidence_thresholds
  from t [where JSON_parse = "\<lambda>j. Some (exampleParsed (6 / 10))" and response = "''{}''"
           and parsed = "exampleParsed (6 / 10)" and newId = "''i1''" and now = 0
           and messages = "[]" and s = "idleInsightState\<lparr>isAnalyzing := True\<rparr>", THEN conjunct1] p c
  have a1: "analyzeForInsights_finish (\<lambda>j. Some (exampleParsed (6 / 10))) ''i1'' 0 []
      (Resolved ''{}'') (idleInsightState\<lparr>isAnalyzing := True\<rparr>) = idleInsightState"
    by (simp add: idleInsightState_def)
  from t [where JSON_parse = "\<lambda>j. Some (exampleParsed (61 / 100))" and response = "''{}''"
           and parsed = "exampleParsed (61 / 100)" and newId = "''i1''" and now = 0
           and messages = "[]" and s = idleInsightState, THEN conjunct2, THEN conjunct1] p c
  have a2: "\<exists>i. currentInsight (analyzeForInsights_finish (\<lambda>j. Some (exampleParsed (61 / 100)))
      ''i1'' 0 [] (Resolved ''{}'') idleInsightState) = Some i \<and> confidence i = 61 / 100"
    by auto
  from t [where insightId = "''i1''" and actionId = exampleIds and now = 0 and messages = "[]"
           and parsedU = "exampleUnified (7 / 10)", THEN conjunct2, THEN conjunct2, THEN conjunct1] u
  have a3: "insight (unifiedResult ''i1'' exampleIds 0 [] (exampleUnified (7 / 10))) = None"
    by simp
  from t [where insightId = "''i1''" and actionId = exampleIds and now = 0 and messages = "[]"
           and parsedU = "exampleUnified (71 / 100)", THEN conjunct2, THEN conjunct2, THEN conjunct1] u
  have a4: "insight (unifiedResult ''i1'' exampleIds 0 [] (exampleUnified (71 / 100))) \<noteq> None"
    by simp
  from a1 a2 a3 a4 show ?thesis by simp
qed

text \<open>
  C10. When an analyzer gets as far as invoking the service, the state in which the call is
  made already holds the current user-message count as the last-analyzed count. Whatever
  the service answers (a rejection, an unparseable text, a parsed response), the count is
  still that afterwards, and a later call invokes nothing as long as the user-message count
  has not advanced by the interval (2 for the insight analyzer, \<open>analysisInterval\<close> for the
  unified one); a call with the same message list never does.
\<close>

theorem analyzers_throttle:
  "(analyzeForInsights_start apiKey goal messages s = Some s' \<longrightarrow>
      lastAnalyzedCount s' = userMessageCount messages \<and>
      lastAnalyzedCount (analyzeForInsights_finish JSON_parse newId now messages result s') =
        userMessageCount messages \<and>
      (\<forall>apiKey' goal' messages'.
         int (userMessageCount messages') - int (userMessageCount messages) < 2 \<longrightarrow>
         analyzeForInsights_start apiKey' goal' messages'
           (analyzeForInsights_finish JSON_parse newId now messages result s') = None)) \<and>
   (analyze_start apiKey goal messages u = Some u' \<longrightarrow>
      unified_lastAnalyzedCount u' = userMessageCount messages \<and>
      unified_lastAnalyzedCount
        (snd (analyze_finish JSON_parseU insightId actionId now messages result u')) =
        userMessageCount messages \<and>
      (\<forall>apiKey' goal' messages'.
         userMessageCount messages' \<le> userMessageCount messages \<or>
         int (userMessageCount messages') - int (userMessageCount messages) < analysisInterval u \<longrightarrow>
         analyze_start apiKey' goal' messages'
           (snd (analyze_finish JSON_parseU insightId actionId now messages result u')) = None))"
proof -
  have fin: "\<And>s. lastAnalyzedCount (analyzeForInsights_finish JSON_parse newId now messages result s) =
      lastAnalyzedCount s"
    by (simp add: analyzeForInsights_finish_def Let_def split: service_result.splits option.splits)
  have finU: "\<And>u. unified_lastAnalyzedCount
        (snd (analyze_finish JSON_parseU insightId actionId now messages result u)) =
      unified_lastAnalyzedCount u \<and>
      analysisInterval (snd (analyze_finish JSON_parseU insightId actionId now messages result u)) =
      analysisInterval u"
    by (simp add: analyze_finish_def Let_def split: service_result.splits option.splits)
  show ?thesis
    by (auto simp: fin finU analyzeForInsights_start_def analyze_start_def split: if_splits)
qed


theorem analyzers_throttle_witness:
  "analyzeForInsights_start ''key'' ''Build a REST API'' (offTopic 4) idleInsightState =
     Some (idleInsightState\<lparr>lastAnalyzedCount := 2, isAnalyzing := True\<rparr>) \<and>
   analyzeForInsights_start ''key'' ''Build a REST API'' (offTopic 4)
     (analyzeForInsights_finish (\<lambda>j. None) ''i1'' 0 (offTopic 4) Rejected
        (idleInsightState\<lparr>lastAnalyzedCount := 2, isAnalyzing := True\<rparr>)) = None \<and>
   analyze_start ''key'' ''Build a REST API'' (offTopic 10) (initialUnifiedState 0) =
     Some ((initialUnifiedState 0)\<lparr>unified_lastAnalyzedCount := 5, unified_isAnalyzing := True\<rparr>) \<and>
   analyze_start ''key'' ''Build a REST API'' (offTopic 18)
     (snd (analyze_finish (\<lambda>j. None) ''i1'' exampleIds 0 (offTopic 10) (Resolved ''no json'')
        ((initialUnifiedState 0)\<lparr>unified_lastAnalyzedCount := 5, unified_isAnalyzing := True\<rparr>))) =
     None"
proof -
  have c4: "userMessageCount (offTopic 4) = 2" and c10: "userMessageCount (offTopic 10) = 5"
    and c18: "userMessageCount (offTopic 18) = 9"
    by code_simp+
  have l4: "length (offTopic 4) = 4" and l10: "length (offTopic 10) = 10"
    by (simp_all add: offTopic_def)
  have s1: "analyzeForInsights_start ''key'' ''Build a REST API'' (offTopic 4) idleInsightState =
      Some (idleInsightState\<lparr>lastAnalyzedCount := 2, isAnalyzing := True\<rparr>)"
    by (simp add: analyzeForInsights_start_def c4 l4 idleInsightState_def)
  have u1: "analyze_start ''key'' ''Build a REST API'' (offTopic 10) (initialUnifiedState 0) =
      Some ((initialUnifiedState 0)\<lparr>unified_lastAnalyzedCount := 5, unified_isAnalyzing := True\<rparr>)"
    by (simp add: analyze_start_def c10 l10 initialUnifiedState_def)
  have i5: "analysisInterval (initialUnifiedState 0) = 5"
    by (simp add: initialUnifiedState_def)
  from analyzers_throttle [where apiKey = "''key''" and goal = "''Build a REST API''"
      and messages = "offTopic 4" and s = idleInsightState
      and s' = "idleInsightState\<lparr>lastAnalyzedCount := 2, isAnalyzing := True\<rparr>"
      and JSON_parse = "\<lambda>j. None" and newId = "''i1''" and now = 0 and result = Rejected] s1
  have a: "analyzeForInsights_start ''key'' ''Build a REST API'' (offTopic 4)
     (analyzeForInsights_finish (\<lambda>j. None) ''i1'' 0 (offTopic 4) Rejected
        (idleInsightState\<lparr>lastAnalyzedCount := 2, isAnalyzing := True\<rparr>)) = None"
    by simp
  from analyzers_throttle [where apiKey = "''key''" and goal = "''Build a REST API''"
      and messages = "offTopic 10" and u = "initialUnifiedState 0"
      and u' = "(initialUnifiedState 0)\<lparr>unified_lastAnalyzedCount := 5, unified_isAnalyzing := True\<rparr>"
      and JSON_parseU = "\<lambda>j. None" and insightId = "''i1''" and actionId = exampleIds
      and now = 0 and result = "Resolved ''no json''"] u1 i5
  have b: "analyze_start ''key'' ''Build a REST API'' (offTopic 18)
     (snd (analyze_finish (\<lambda>j. None) ''i1'' exampleIds 0 (offTopic 10) (Resolved ''no json'')
        ((initialUnifiedState 0)\<lparr>unified_lastAnalyzedCount := 5, unified_isAnalyzing := True\<rparr>))) =
     None"
    by (simp add: c10 c18)
  from s1 a u1 b show ?thesis by simp
qed

text \<open>
  For the whole calls: a second call with the same key, goal and message list, whatever
  the service would answer, returns before the service and leaves the state as the first
  call left it.
\<close>

lemma analyzeForInsights_finish_count:
  "lastAnalyzedCount (analyzeForInsights_finish JSON_parse newId now messages result s) =
     lastAnalyzedCount s"
  by (simp add: analyzeForInsights_finish_def Let_def split: service_result.splits option.splits)

lemma analyzeForInsights_repeat:
  "analyzeForInsights JSON_parse' newId' now' apiKey goal messages result'
     (analyzeForInsights JSON_parse newId now apiKey goal messages result s) =
   analyzeForInsights JSON_parse newId now apiKey goal messages result s"
proof (cases "analyzeForInsights_start apiKey goal messages s")
  case None
  then show ?thesis
    by (simp add: analyzeForInsights_def)
next
  case (Some s')
  then have "lastAnalyzedCount s' = userMessageCount messages"
    by (auto simp: analyzeForInsights_start_def split: if_splits)
  then have "analyzeForInsights_start apiKey goal messages
      (analyzeForInsights_finish JSON_parse newId now messages result s') = None"
    by (simp add: analyzeForInsights_start_def analyzeForInsights_finish_count)
  with Some show ?thesis
    by (simp add: analyzeForInsights_def)
qed

lemma analyze_finish_count:
  "unified_lastAnalyzedCount
     (snd (analyze_finish JSON_parse insightId actionId now messages result s)) =
     unified_lastAnalyzedCount s"
  by (simp add: analyze_finish_def Let_def split: service_result.splits option.splits)

lemma analyze_repeat:
  "analyze JSON_parse' insightId' actionId' now' apiKey goal messages result'
     (snd (analyze JSON_parse insightId actionId now apiKey goal messages result s)) =
   (None, snd (analyze JSON_parse insightId actionId now apiKey goal messages result s))"
proof (cases "analyze_start apiKey goal messages s")
  case None
  then show ?thesis
    by (simp add: analyze_def)
next
  case (Some s')
  then have "unified_lastAnalyzedCount s' = userMessageCount messages"
    by (auto simp: analyze_start_def split: if_splits)
  then have "analyze_start apiKey goal messages
      (snd (analyze_finish JSON_parse insightId actionId now messages result s')) = None"
    by (simp add: analyze_start_def analyze_finish_count)
  with Some show ?thesis
    by (simp add: analyze_def)
qed

section \<open>Trait confidence\<close>

lemma explorationTrait_cases:
  "(\<not> 5 \<le> tangentCount (metrics prev) + selfCorrectionCount (metrics prev) \<and>
      explorationTrait now prev = []) \<or>
   (5 \<le> tangentCount (metrics prev) + selfCorrectionCount (metrics prev) \<and>
      (\<exists>t. explorationTrait now prev = [t] \<and> trait_id t = ''explorationTendency'' \<and>
         trait_confidence t =
           min 1 ((tangentCount (metrics prev) + selfCorrectionCount (metrics prev)) / 20)))"
  by (simp add: explorationTrait_def Let_def MIN_SAMPLES_FOR_TRAIT_def)

lemma decisionTrait_cases:
  "(\<not> 5 \<le> questionBeforeActionCount (metrics prev) + quickDecisionCount (metrics prev) \<and>
      decisionTrait now prev = []) \<or>
   (5 \<le> questionBeforeActionCount (metrics prev) + quickDecisionCount (metrics prev) \<and>
      (\<exists>t. decisionTrait now prev = [t] \<and> trait_id t = ''decisionStyle'' \<and>
         trait_confidence t =
           min 1 ((questionBeforeActionCount (metrics prev) + quickDecisionCount (metrics prev)) / 15)))"
  by (simp add: decisionTrait_def Let_def MIN_SAMPLES_FOR_TRAIT_def)

lemma receptivityTrait_cases:
  "(\<not> 5 \<le> insightsAccepted (metrics prev) + insightsDismissed (metrics prev) \<and>
      receptivityTrait now prev = []) \<or>
   (5 \<le> insightsAccepted (metrics prev) + insightsDismissed (metrics prev) \<and>
      (\<exists>t. receptivityTrait now prev = [t] \<and> trait_id t = ''insightReceptivity'' \<and>
         trait_confidence t =
           min 1 ((insightsAccepted (metrics prev) + insightsDismissed (metrics prev)) / 10)))"
  by (simp add: receptivityTrait_def Let_def MIN_SAMPLES_FOR_TRAIT_def)

lemma captureTrait_cases:
  "(\<not> 5 \<le> clipsTotal (metrics prev) \<and> captureTrait now prev = []) \<or>
   (5 \<le> clipsTotal (metrics prev) \<and>
      (\<exists>t. captureTrait now prev = [t] \<and> trait_id t = ''captureStyle'' \<and>
         trait_confidence t = min 1 (clipsTotal (metrics prev) / 15)))"
  by (simp add: captureTrait_def Let_def MIN_SAMPLES_FOR_TRAIT_def)

text \<open>
  C4, as the code has it. A pass of \<open>analyzePatterns\<close> gives each trait whose counters reach
  the minimum of 5 the confidence \<open>min(1, sampleCount / N)\<close>, where \<open>sampleCount\<close> is the
  total of the counters behind the trait and \<open>N\<close> is 20 for the exploration tendency, 15
  for the decision style, 10 for the insight receptivity and 15 for the capture style; and
  when at least one trait is computed, every trait of the new profile is one of these.
\<close>

theorem analyzePatterns_confidence:
  "(5 \<le> tangentCount (metrics prev) + selfCorrectionCount (metrics prev) \<longrightarrow>
      (\<exists>t. find (\<lambda>t. trait_id t = ''explorationTendency'') (traits (analyzePatterns now prev)) = Some t \<and>
           trait_confidence t =
             min 1 ((tangentCount (metrics prev) + selfCorrectionCount (metrics prev)) / 20))) \<and>
   (5 \<le> questionBeforeActionCount (metrics prev) + quickDecisionCount (metrics prev) \<longrightarrow>
      (\<exists>t. find (\<lambda>t. trait_id t = ''decisionStyle'') (traits (analyzePatterns now prev)) = Some t \<and>
           trait_confidence t =
             min 1 ((questionBeforeActionCount (metrics prev) + quickDecisionCount (metrics prev)) / 15))) \<and>
   (5 \<le> insightsAccepted (metrics prev) + insightsDismissed (metrics prev) \<longrightarrow>
      (\<exists>t. find (\<lambda>t. trait_id t = ''insightReceptivity'') (traits (analyzePatterns now prev)) = Some t \<and>
           trait_confidence t =
             min 1 ((insightsAccepted (metrics prev) + insightsDismissed (metrics prev)) / 10))) \<and>
   (5 \<le> clipsTotal (metrics prev) \<longrightarrow>
      (\<exists>t. find (\<lambda>t. trait_id t = ''captureStyle'') (traits (analyzePatterns now prev)) = Some t \<and>
           trait_confidence t = min 1 (clipsTotal (metrics prev) / 15))) \<and>
   (5 \<le> tangentCount (metrics prev) + selfCorrectionCount (metrics prev) \<or>
    5 \<le> questionBeforeActionCount (metrics prev) + quickDecisionCount (metrics prev) \<or>
    5 \<le> insightsAccepted (metrics prev) + insightsDismissed (metrics prev) \<or>
    5 \<le> clipsTotal (metrics prev) \<longrightarrow>
      (\<forall>t \<in> set (traits (analyzePatterns now prev)).
         trait_id t = ''explorationTendency'' \<and> trait_confidence t =
           min 1 ((tangentCount (metrics prev) + selfCorrectionCount (metrics prev)) / 20) \<or>
         trait_id t = ''decisionStyle'' \<and> trait_confidence t =
           min 1 ((questionBeforeActionCount (metrics prev) + quickDecisionCount (metrics prev)) / 15) \<or>
         trait_id t = ''insightReceptivity'' \<and> trait_confidence t =
           min 1 ((insightsAccepted (metrics prev) + insightsDismissed (metrics prev)) / 10) \<or>
         trait_id t = ''captureStyle'' \<and> trait_confidence t =
           min 1 (clipsTotal (metrics prev) / 15)))"
proof -
  define E where "E = explorationTrait now prev"
  define D where "D = decisionTrait now prev"
  define R where "R = receptivityTrait now prev"
  define C where "C = captureTrait now prev"
  define e where "e = (5 \<le> tangentCount (metrics prev) + selfCorrectionCount (metrics prev))"
  define d where "d = (5 \<le> questionBeforeActionCount (metrics prev) + quickDecisionCount (metrics prev))"
  define r where "r = (5 \<le> insightsAccepted (metrics prev) + insightsDismissed (metrics prev))"
  define c where "c = (5 \<le> clipsTotal (metrics prev))"
  note E = explorationTrait_cases [where now = now and prev = prev, folded E_def e_def]
  note D = decisionTrait_cases [where now = now and prev = prev, folded D_def d_def]
  note R = receptivityTrait_cases [where now = now and prev = prev, folded R_def r_def]
  note C = captureTrait_cases [where now = now and prev = prev, folded C_def c_def]
  have tr: "traits (analyzePatterns now prev) = (if E @ D @ R @ C = [] then traits prev else E @ D @ R @ C)"
    by (simp add: analyzePatterns_def Let_def E_def D_def R_def C_def)
  have ids: "''explorationTendency'' \<noteq> ''decisionStyle''" "''explorationTendency'' \<noteq> ''insightReceptivity''"
    "''explorationTendency'' \<noteq> ''captureStyle''" "''decisionStyle'' \<noteq> ''insightReceptivity''"
    "''decisionStyle'' \<noteq> ''captureStyle''" "''insightReceptivity'' \<noteq> ''captureStyle''"
    by simp_all
  show ?thesis
    unfolding tr e_def [symmetric] d_def [symmetric] r_def [symmetric] c_def [symmetric]
    using E D R C
    by (elim disjE conjE exE) (simp_all add: ids)
qed

theorem analyzePatterns_confidence_witness:
  "map (\<lambda>t. (trait_id t, trait_confidence t)) (traits (analyzePatterns 1000 busyProfile)) =
     [(''explorationTendency'', 13 / 20), (''decisionStyle'', 2 / 3), (''insightReceptivity'', 1)]"
proof -
  have m: "tangentCount (metrics busyProfile) = 12" "selfCorrectionCount (metrics busyProfile) = 1"
    "questionBeforeActionCount (metrics busyProfile) = 1" "quickDecisionCount (metrics busyProfile) = 9"
    "insightsAccepted (metrics busyProfile) = 6" "insightsDismissed (metrics busyProfile) = 4"
    "clipsTotal (metrics busyProfile) = 0"
    by (simp_all add: busyProfile_def DEFAULT_BEHAVIORAL_PROFILE_def)
  have ids: "map trait_id (traits (analyzePatterns 1000 busyProfile)) =
      [''explorationTendency'', ''decisionStyle'', ''insightReceptivity'']"
    by code_simp
  from analyzePatterns_confidence [of busyProfile 1000, THEN conjunct2, THEN conjunct2,
      THEN conjunct2, THEN conjunct2]
  have "\<forall>t \<in> set (traits (analyzePatterns 1000 busyProfile)).
         trait_id t = ''explorationTendency'' \<and> trait_confidence t = 13 / 20 \<or>
         trait_id t = ''decisionStyle'' \<and> trait_confidence t = 2 / 3 \<or>
         trait_id t = ''insightReceptivity'' \<and> trait_confidence t = 1 \<or>
         trait_id t = ''captureStyle'' \<and> trait_confidence t = 0"
    by (simp add: m)
  with ids show ?thesis
    by (auto simp: map_eq_Cons_conv)
qed

text \<open>
  With 6 insights accepted and 4 dismissed the confidence of the insight receptivity is 1,
  which no normalizing constant between 15 and 20 gives for 10 samples.
\<close>

theorem analyzePatterns_insight_confidence_by_10:
  "\<not> (\<exists>c::rat. 15 \<le> c \<and> c \<le> 20 \<and>
       map trait_confidence
         (filter (\<lambda>t. trait_id t = ''insightReceptivity'') (traits (analyzePatterns 1000 busyProfile))) =
       [min 1 ((insightsAccepted (metrics busyProfile) + insightsDismissed (metrics busyProfile)) / c)])"
proof -
  have v: "map trait_confidence
         (filter (\<lambda>t. trait_id t = ''insightReceptivity'') (traits (analyzePatterns 1000 busyProfile))) = [1]"
    by code_simp
  have m: "insightsAccepted (metrics busyProfile) + insightsDismissed (metrics busyProfile) = 10"
    by (simp add: busyProfile_def DEFAULT_BEHAVIORAL_PROFILE_def)
  have "\<And>c::rat. 15 \<le> c \<Longrightarrow> min 1 (10 / c) \<noteq> 1"
    by (simp add: min_def field_simps)
  with v m show ?thesis by auto
qed

section \<open>Observations and the cooldown\<close>








section \<open>The blend of the cognitive profile\<close>







lemma binaryExponent_less:
  assumes "x \<noteq> 0"
  shows "\<bar>x\<bar> < 2 powi (binaryExponent x + 1)"
proof -
  obtain p q where pq: "quotient_of \<bar>x\<bar> = (p, q)"
    by (cases "quotient_of \<bar>x\<bar>")
  then have q: "0 < q" and x: "\<bar>x\<bar> = of_int p / of_int q"
    using quotient_of_denom_pos [OF pq] quotient_of_div [OF pq] by simp_all
  from assms have "0 < \<bar>x\<bar>" by simp
  with x q have p: "0 < p"
    by (simp add: zero_less_divide_iff)
  define d where "d = bitlen p - bitlen q"
  have be: "binaryExponent x = (if 2 powi d \<le> \<bar>x\<bar> then d else d - 1)"
    by (simp add: binaryExponent_def pq d_def Let_def)
  have bp: "1 \<le> bitlen p" and bq: "1 \<le> bitlen q"
    using p q by (simp_all add: bitlen_alt_def)
  have hi: "(of_int p :: rat) < 2 ^ nat (bitlen p)"
  proof -
    have "p < (2::int) ^ nat (bitlen p)"
      using bitlen_bounds [OF p] by simp
    then have "(of_int p :: rat) < of_int ((2::int) ^ nat (bitlen p))"
      by (simp only: of_int_less_iff)
    then show ?thesis by simp
  qed
  have lo: "(2::rat) ^ nat (bitlen q - 1) \<le> of_int q"
  proof -
    have "(2::int) ^ nat (bitlen q - 1) \<le> q"
      using bitlen_bounds [OF q] by simp
    then have "(of_int ((2::int) ^ nat (bitlen q - 1)) :: rat) \<le> of_int q"
      by (simp only: of_int_le_iff)
    then show ?thesis by simp
  qed
  have "of_int p / of_int q < (2::rat) ^ nat (bitlen p) / 2 ^ nat (bitlen q - 1)"
    using hi lo q p by (intro frac_less) simp_all
  also have "\<dots> = 2 powi (bitlen p) / 2 powi (bitlen q - 1)"
    using bp bq by (simp add: power_int_def)
  also have "\<dots> = 2 powi (bitlen p - (bitlen q - 1))"
    by (rule power_int_diff [symmetric]) simp
  also have "bitlen p - (bitlen q - 1) = d + 1"
    by (simp add: d_def)
  finally have "\<bar>x\<bar> < 2 powi (d + 1)"
    by (simp add: x)
  then show ?thesis
    by (auto simp: be)
qed












end
